theory Spec2Isabelle
  imports Complex_Main
begin

section \<open>Python values\<close>

text \<open>
  The exceptions the collector can meet. All of them are subclasses of Python's
  \<open>Exception\<close>, so every \<open>except Exception\<close> of the source catches each of them.
\<close>

datatype exn =
    KeyError | TypeError | IndexError | AttributeError
  | ZeroDivisionError | OverflowError
  | ConnectionError | Timeout | JSONDecodeError
  | OSError | DatabaseError

text \<open>
  What \<open>response.json()\<close> builds: \<open>None\<close>, \<open>bool\<close>, \<open>int\<close>, \<open>str\<close>, \<open>list\<close> and
  \<open>dict\<close>. A \<open>dict\<close> is the association list of its items (the lookup is \<open>map_of\<close>).
  JSON numbers with a fraction or an exponent (Python floats) are not modelled; the
  \<open>value\<close> fields of the distance API are integers.
\<close>

datatype json =
    JNull
  | JBool bool
  | JInt int
  | JStr string
  | JList "json list"
  | JDict "(string \<times> json) list"

text \<open>Sequencing of computations that may raise: the first exception wins.\<close>

fun bind_result :: "exn + 'a \<Rightarrow> ('a \<Rightarrow> exn + 'b) \<Rightarrow> exn + 'b" where
  "bind_result (Inl e) f = Inl e"
| "bind_result (Inr x) f = f x"

text \<open>\<open>x[k]\<close> for a string key \<open>k\<close>: only a dict can be subscripted by a string.\<close>

fun subscript :: "json \<Rightarrow> string \<Rightarrow> exn + json" where
  "subscript (JDict d) k = (case map_of d k of Some v \<Rightarrow> Inr v | None \<Rightarrow> Inl KeyError)"
| "subscript JNull k = Inl TypeError"
| "subscript (JBool b) k = Inl TypeError"
| "subscript (JInt n) k = Inl TypeError"
| "subscript (JStr s) k = Inl TypeError"
| "subscript (JList l) k = Inl TypeError"

text \<open>
  \<open>x[0]\<close>: the first item of a list, the first character of a string; a parsed JSON
  object has string keys only, so the key \<open>0\<close> is never in it.
\<close>

fun first_item :: "json \<Rightarrow> exn + json" where
  "first_item (JList []) = Inl IndexError"
| "first_item (JList (v # vs)) = Inr v"
| "first_item (JStr []) = Inl IndexError"
| "first_item (JStr (c # cs)) = Inr (JStr [c])"
| "first_item (JDict d) = Inl KeyError"
| "first_item JNull = Inl TypeError"
| "first_item (JBool b) = Inl TypeError"
| "first_item (JInt n) = Inl TypeError"

text \<open>\<open>x.get(k, default)\<close>: a method of dicts only.\<close>

fun get :: "json \<Rightarrow> string \<Rightarrow> json \<Rightarrow> exn + json" where
  "get (JDict d) k dflt = Inr (case map_of d k of Some v \<Rightarrow> v | None \<Rightarrow> dflt)"
| "get JNull k dflt = Inl AttributeError"
| "get (JBool b) k dflt = Inl AttributeError"
| "get (JInt n) k dflt = Inl AttributeError"
| "get (JStr s) k dflt = Inl AttributeError"
| "get (JList l) k dflt = Inl AttributeError"

text \<open>Truth value testing, as \<open>if x:\<close> and \<open>x and y\<close> do it.\<close>

fun truthy :: "json \<Rightarrow> bool" where
  "truthy JNull = False"
| "truthy (JBool b) = b"
| "truthy (JInt n) = (n \<noteq> 0)"
| "truthy (JStr s) = (s \<noteq> [])"
| "truthy (JList l) = (l \<noteq> [])"
| "truthy (JDict d) = (d \<noteq> [])"

text \<open>The numbers among the values: \<open>int\<close>, and \<open>bool\<close> as its subclass.\<close>

fun as_int :: "json \<Rightarrow> int option" where
  "as_int (JInt n) = Some n"
| "as_int (JBool b) = Some (if b then 1 else 0)"
| "as_int JNull = None"
| "as_int (JStr s) = None"
| "as_int (JList l) = None"
| "as_int (JDict d) = None"

text \<open>\<open>a - b\<close>.\<close>

definition py_sub :: "json \<Rightarrow> json \<Rightarrow> exn + json" where
  "py_sub a b =
     (case (as_int a, as_int b) of
        (Some x, Some y) \<Rightarrow> Inr (JInt (x - y))
      | _ \<Rightarrow> Inl TypeError)"

text \<open>
  \<open>a / b\<close> on integers is the correctly rounded quotient as a float, and raises
  \<open>OverflowError\<close> when that float would not be finite: from the midpoint of the largest
  double and \<open>2 ^ 1024\<close> on. The float itself is idealised as the exact quotient.
\<close>

definition too_large_for_float :: "int \<Rightarrow> int \<Rightarrow> bool" where
  "too_large_for_float x y \<longleftrightarrow> (2 ^ 1024 - 2 ^ 970) * \<bar>y\<bar> \<le> \<bar>x\<bar>"

definition py_truediv :: "json \<Rightarrow> json \<Rightarrow> exn + real" where
  "py_truediv a b =
     (case (as_int a, as_int b) of
        (Some x, Some y) \<Rightarrow>
          if y = 0 then Inl ZeroDivisionError
          else if too_large_for_float x y then Inl OverflowError
          else Inr (real_of_int x / real_of_int y)
      | _ \<Rightarrow> Inl TypeError)"

section \<open>The interval gate\<close>

text \<open>
  A \<open>datetime\<close> is its number of microseconds on the UTC time line, a \<open>timedelta\<close> the
  difference of two. \<open>datetime.utcnow()\<close> is the parameter \<open>now\<close>. The float of
  \<open>total_seconds() / 3600\<close> is idealised as the exact quotient.
\<close>

type_synonym datetime = int

definition total_seconds :: "int \<Rightarrow> real" where
  "total_seconds delta = real_of_int delta / 10 ^ 6"

definition should_query_now :: "datetime \<Rightarrow> datetime option \<Rightarrow> real \<Rightarrow> bool" where
  "should_query_now now last_queried_at interval_hours =
     (case last_queried_at of
        None \<Rightarrow> True
      | Some last_run \<Rightarrow>
          (let time_since_last = total_seconds (now - last_run) / 3600
           in time_since_last \<ge> interval_hours))"


section \<open>The distance API client\<close>

text \<open>
  What one HTTP request can come to: \<open>requests.get\<close> raises (no connection, or the
  10 second timeout), \<open>response.json()\<close> raises (the body is not JSON), or there is a
  parsed body.
\<close>

datatype api_reply = ConnectionFailed | TimedOut | MalformedBody | JsonBody json

text \<open>The lines printed that tell how a step ended (banners and progress lines are left out).\<close>

datatype out_line =
    QuotaExceeded
  | ElementQuotaExceeded
  | ApiError exn
  | Failed
  | Error exn
  | NoActiveRegion
  | Skipping
  | CollectionComplete nat nat
  | CollectionFailed exn

record traffic_data =
  distance :: json
  freeflow_duration :: json
  current_duration :: json

text \<open>\<open>data['rows'][0]['elements'][0]\<close>\<close>

definition first_element :: "json \<Rightarrow> exn + json" where
  "first_element data =
     bind_result (subscript data ''rows'') (\<lambda>rows.
     bind_result (first_item rows) (\<lambda>row.
     bind_result (subscript row ''elements'') (\<lambda>elements.
     first_item elements)))"

text \<open>\<open>element.get(k, {}).get('value')\<close>; \<open>None\<close> is \<open>JNull\<close>.\<close>

definition value_of :: "json \<Rightarrow> string \<Rightarrow> exn + json" where
  "value_of element k =
     bind_result (get element k (JDict [])) (\<lambda>field. get field ''value'' JNull)"

text \<open>
  The body of \<open>if element['status'] == 'OK':\<close>. The speeds are computed and dropped,
  but computing them can raise.
\<close>

definition element_ok :: "json \<Rightarrow> exn + (out_line list \<times> traffic_data option)" where
  "element_ok element =
     bind_result (value_of element ''duration'') (\<lambda>duration.
     bind_result (value_of element ''duration_in_traffic'') (\<lambda>duration_in_traffic.
     bind_result (value_of element ''distance'') (\<lambda>dist_val.
       if truthy duration \<and> truthy dist_val then
         (let current = (if truthy duration_in_traffic then duration_in_traffic else duration)
          in bind_result (py_sub current duration) (\<lambda>delay.
             bind_result (py_truediv dist_val duration) (\<lambda>q1.
             (let freeflow_speed = q1 * 3.6
              in bind_result (py_truediv dist_val current) (\<lambda>q2.
                 (let current_speed = q2 * 3.6
                  in Inr ([], Some \<lparr>distance = dist_val, freeflow_duration = duration,
                                    current_duration = current\<rparr>)))))))
       else Inr ([], None))))"

text \<open>The \<open>try\<close> block from \<open>data = response.json()\<close> on.\<close>

definition parse_response :: "json \<Rightarrow> exn + (out_line list \<times> traffic_data option)" where
  "parse_response data =
     bind_result (subscript data ''status'') (\<lambda>status.
       if status = JStr ''OVER_QUERY_LIMIT'' then Inr ([QuotaExceeded], None)
       else if status = JStr ''OK'' then
         bind_result (first_element data) (\<lambda>element.
         bind_result (subscript element ''status'') (\<lambda>element_status.
           if element_status = JStr ''OVER_QUERY_LIMIT'' then Inr ([ElementQuotaExceeded], None)
           else if element_status = JStr ''OK'' then element_ok element
           else Inr ([], None)))
       else Inr ([], None))"

definition try_block :: "api_reply \<Rightarrow> exn + (out_line list \<times> traffic_data option)" where
  "try_block reply =
     (case reply of
        ConnectionFailed \<Rightarrow> Inl ConnectionError
      | TimedOut \<Rightarrow> Inl Timeout
      | MalformedBody \<Rightarrow> Inl JSONDecodeError
      | JsonBody data \<Rightarrow> parse_response data)"

text \<open>
  \<open>_query_distance_matrix\<close>, as a function of what the request came to: the lines it
  prints and its return value (\<open>None\<close> of Python is \<open>None\<close>).
\<close>

definition query_distance_matrix :: "api_reply \<Rightarrow> out_line list \<times> traffic_data option" where
  "query_distance_matrix reply =
     (case try_block reply of
        Inl e \<Rightarrow> ([ApiError e], None)
      | Inr r \<Rightarrow> r)"

section \<open>The database\<close>

text \<open>
  The tables with the columns the collector reads or writes. \<open>NULL\<close> is \<open>None\<close>, or
  \<open>JNull\<close> in a column that holds a value taken from the API. Coordinates are kept as
  the text an f-string renders them to.
\<close>

record collection_config_row =
  cc_region_id :: int
  cc_is_active :: bool
  cc_queries_per_day :: int
  cc_interval_hours :: real
  cc_last_queried_at :: "datetime option"
  cc_updated_at :: "datetime option"

record region_row =
  r_region_id :: int
  r_region_name :: "string option"
  r_segment_count :: int

record road_segment_row =
  rs_segment_id :: int
  rs_region_id :: int
  rs_start_lat :: string
  rs_start_lng :: string
  rs_end_lat :: string
  rs_end_lng :: string
  rs_segment_distance_api :: json

record observation_row =
  obs_segment_id :: int
  obs_region_id :: int
  obs_observed_at :: datetime
  obs_freeflow_duration_seconds :: json
  obs_current_duration_seconds :: json

record query_log_row =
  ql_region_id :: int
  ql_elements_queried :: nat
  ql_successful_queries :: nat
  ql_failed_queries :: nat
  ql_api_response_time_ms :: int

record database =
  collection_config :: "collection_config_row list"
  regions :: "region_row list"
  road_segments :: "road_segment_row list"
  traffic_observations :: "observation_row list"
  query_log :: "query_log_row list"

section \<open>The process and its environment\<close>

text \<open>
  The state of the running process: the clock (read by \<open>datetime.utcnow()\<close> and
  \<open>time.time()\<close>), the database as committed, the database as the open transaction of
  the one connection sees it, and the lines printed. psycopg2 opens a transaction at the
  first statement and keeps it until \<open>commit()\<close>; what is not committed when the process
  ends is rolled back, so \<open>durable\<close> is what the process leaves behind.
\<close>

record world =
  clock :: datetime
  durable :: database
  txn :: database
  out :: "out_line list"

datatype db_op =
    Connect
  | SelectActiveRegion
  | SelectSegments
  | UpdateDistances
  | InsertObservations
  | InsertQueryLog
  | CommitCollection
  | UpdateConfig
  | CommitConfig

text \<open>
  What the outside decides: the reply to the request of each loop iteration and the
  microseconds it takes, whether the progress print of an iteration raises (every other
  print succeeds), and which database calls raise.
\<close>

record env =
  api :: "nat \<Rightarrow> string \<Rightarrow> string \<Rightarrow> api_reply"
  api_latency :: "nat \<Rightarrow> nat"
  stdout_broken :: "nat \<Rightarrow> bool"
  db_fails :: "db_op \<Rightarrow> bool"

type_synonym 'a action = "world \<Rightarrow> (exn + 'a) \<times> world"

definition and_then :: "'a action \<Rightarrow> ('a \<Rightarrow> 'b action) \<Rightarrow> 'b action" where
  "and_then m f w = (case m w of (Inl ex, w') \<Rightarrow> (Inl ex, w') | (Inr x, w') \<Rightarrow> f x w')"

text \<open>\<open>datetime.utcnow()\<close> and \<open>time.time()\<close>: the clock is read.\<close>

definition utcnow :: "datetime action" where
  "utcnow w = (Inr (clock w), w)"

definition print_line :: "out_line \<Rightarrow> unit action" where
  "print_line l w = (Inr (), w\<lparr>out := out w @ [l]\<rparr>)"

text \<open>One statement on the cursor: it raises, or changes what the transaction sees.\<close>

definition execute :: "env \<Rightarrow> db_op \<Rightarrow> (database \<Rightarrow> database) \<Rightarrow> unit action" where
  "execute e op f w =
     (if db_fails e op then (Inl DatabaseError, w) else (Inr (), w\<lparr>txn := f (txn w)\<rparr>))"

definition commit :: "env \<Rightarrow> db_op \<Rightarrow> unit action" where
  "commit e op w =
     (if db_fails e op then (Inl DatabaseError, w) else (Inr (), w\<lparr>durable := txn w\<rparr>))"

section \<open>Reading the active region\<close>

text \<open>
  The join of \<open>collection_config\<close> and \<open>regions\<close> on the region id, the active rows
  only, \<open>LIMIT 1\<close>: the first such row in table order, or \<open>None\<close>.
\<close>

type_synonym active_row = "int \<times> string option \<times> int \<times> real \<times> datetime option \<times> int"

definition active_rows :: "database \<Rightarrow> active_row list" where
  "active_rows db =
     [(cc_region_id cc, r_region_name r, cc_queries_per_day cc, cc_interval_hours cc,
       cc_last_queried_at cc, r_segment_count r).
        cc \<leftarrow> collection_config db, r \<leftarrow> regions db,
        cc_region_id cc = r_region_id r, cc_is_active cc]"

definition get_active_region :: "env \<Rightarrow> active_row option action" where
  "get_active_region e w =
     (if db_fails e SelectActiveRegion then (Inl DatabaseError, w)
      else (Inr (case active_rows (txn w) of [] \<Rightarrow> None | row # rest \<Rightarrow> Some row), w))"

section \<open>Collecting\<close>

record loop_state =
  observations :: "observation_row list"
  segment_updates :: "(json \<times> int) list"
  successful :: nat
  failed :: nat
  l_clock :: datetime
  l_out :: "out_line list"

text \<open>
  One iteration of the \<open>for\<close> loop. The request takes its latency, \<open>time.sleep(0.2)\<close>
  200000 microseconds. An exception in the body is caught, printed and counted as a
  failure.
\<close>

definition collect_step ::
  "env \<Rightarrow> int \<Rightarrow> datetime \<Rightarrow> nat \<Rightarrow> road_segment_row \<Rightarrow> loop_state \<Rightarrow> loop_state" where
  "collect_step e region_id timestamp idx seg st =
     (if stdout_broken e idx then
        st\<lparr>failed := failed st + 1, l_out := l_out st @ [Error OSError]\<rparr>
      else
        (let origin = rs_start_lat seg @ '','' @ rs_start_lng seg;
             destination = rs_end_lat seg @ '','' @ rs_end_lng seg;
             answer = query_distance_matrix (api e idx origin destination);
             st1 = st\<lparr>l_clock := l_clock st + int (api_latency e idx),
                      l_out := l_out st @ fst answer\<rparr>
         in (case snd answer of
               Some traffic \<Rightarrow>
                 st1\<lparr>observations := observations st1 @
                        [\<lparr>obs_segment_id = rs_segment_id seg, obs_region_id = region_id,
                          obs_observed_at = timestamp,
                          obs_freeflow_duration_seconds = freeflow_duration traffic,
                          obs_current_duration_seconds = current_duration traffic\<rparr>],
                     segment_updates := segment_updates st1 @
                        [(distance traffic, rs_segment_id seg)],
                     successful := successful st1 + 1,
                     l_clock := l_clock st1 + 200000\<rparr>
             | None \<Rightarrow>
                 st1\<lparr>failed := failed st1 + 1,
                     l_clock := l_clock st1 + 200000,
                     l_out := l_out st1 @ [Failed]\<rparr>)))"

fun collect_loop ::
  "env \<Rightarrow> int \<Rightarrow> datetime \<Rightarrow> nat \<Rightarrow> road_segment_row list \<Rightarrow> loop_state \<Rightarrow> loop_state" where
  "collect_loop e region_id timestamp idx [] st = st"
| "collect_loop e region_id timestamp idx (seg # segs) st =
     collect_loop e region_id timestamp (Suc idx) segs
       (collect_step e region_id timestamp idx seg st)"

text \<open>The three writes.\<close>

definition update_distance :: "json \<times> int \<Rightarrow> road_segment_row list \<Rightarrow> road_segment_row list" where
  "update_distance u rows =
     map (\<lambda>r. if rs_segment_id r = snd u then r\<lparr>rs_segment_distance_api := fst u\<rparr> else r) rows"

definition update_distances :: "(json \<times> int) list \<Rightarrow> database \<Rightarrow> database" where
  "update_distances us db = db\<lparr>road_segments := fold update_distance us (road_segments db)\<rparr>"

definition insert_observations :: "observation_row list \<Rightarrow> database \<Rightarrow> database" where
  "insert_observations rows db = db\<lparr>traffic_observations := traffic_observations db @ rows\<rparr>"

definition insert_query_log :: "query_log_row \<Rightarrow> database \<Rightarrow> database" where
  "insert_query_log row db = db\<lparr>query_log := query_log db @ [row]\<rparr>"

definition segments_of :: "int \<Rightarrow> database \<Rightarrow> road_segment_row list" where
  "segments_of region_id db = filter (\<lambda>s. rs_region_id s = region_id) (road_segments db)"

definition select_segments :: "env \<Rightarrow> int \<Rightarrow> road_segment_row list action" where
  "select_segments e region_id w =
     (if db_fails e SelectSegments then (Inl DatabaseError, w)
      else (Inr (segments_of region_id (txn w)), w))"

text \<open>The loop as a step of the process: it moves the clock and prints.\<close>

definition initial_loop_state :: "world \<Rightarrow> loop_state" where
  "initial_loop_state w =
     \<lparr>observations = [], segment_updates = [], successful = 0, failed = 0,
      l_clock = clock w, l_out = out w\<rparr>"

definition run_loop ::
  "env \<Rightarrow> int \<Rightarrow> datetime \<Rightarrow> road_segment_row list \<Rightarrow> loop_state action" where
  "run_loop e region_id timestamp segments w =
     (let st = collect_loop e region_id timestamp 0 segments (initial_loop_state w)
      in (Inr st, w\<lparr>clock := l_clock st, out := l_out st\<rparr>))"

definition skip :: "unit action" where
  "skip w = (Inr (), w)"

definition collect_traffic_data :: "env \<Rightarrow> int \<Rightarrow> (nat \<times> nat) action" where
  "collect_traffic_data e region_id =
     and_then (select_segments e region_id) (\<lambda>segments.
     and_then utcnow (\<lambda>timestamp.
     and_then utcnow (\<lambda>start_time.
     and_then (run_loop e region_id timestamp segments) (\<lambda>st.
     and_then utcnow (\<lambda>end_time.
     (let elapsed_time = (end_time - start_time) div 1000 in
     and_then (if segment_updates st \<noteq> []
               then execute e UpdateDistances (update_distances (segment_updates st))
               else skip) (\<lambda>_.
     and_then (if observations st \<noteq> []
               then execute e InsertObservations (insert_observations (observations st))
               else skip) (\<lambda>_.
     and_then (execute e InsertQueryLog (insert_query_log
                 \<lparr>ql_region_id = region_id, ql_elements_queried = length segments,
                  ql_successful_queries = successful st, ql_failed_queries = failed st,
                  ql_api_response_time_ms = elapsed_time\<rparr>)) (\<lambda>_.
     and_then (commit e CommitCollection) (\<lambda>_.
     (\<lambda>w. (Inr (successful st, failed st), w))))))))))))"

section \<open>The orchestrator\<close>

definition update_config :: "datetime \<Rightarrow> datetime \<Rightarrow> int \<Rightarrow> database \<Rightarrow> database" where
  "update_config t1 t2 region_id db =
     db\<lparr>collection_config :=
          map (\<lambda>cc. if cc_region_id cc = region_id
                    then cc\<lparr>cc_last_queried_at := Some t1, cc_updated_at := Some t2\<rparr>
                    else cc)
              (collection_config db)\<rparr>"

text \<open>\<open>successful/(successful+failed)*100\<close>, a float idealised as the exact value.\<close>

definition success_rate :: "nat \<Rightarrow> nat \<Rightarrow> exn + real" where
  "success_rate s f =
     (if s + f = 0 then Inl ZeroDivisionError else Inr (real s / real (s + f) * 100))"

text \<open>The \<open>try\<close> block of \<open>run\<close>.\<close>

definition run_try :: "env \<Rightarrow> int \<Rightarrow> unit action" where
  "run_try e region_id =
     and_then (collect_traffic_data e region_id) (\<lambda>(s, f).
     and_then utcnow (\<lambda>t1.
     and_then utcnow (\<lambda>t2.
     and_then (execute e UpdateConfig (update_config t1 t2 region_id)) (\<lambda>_.
     and_then (commit e CommitConfig) (\<lambda>_.
     and_then (print_line (CollectionComplete s f)) (\<lambda>_.
     (\<lambda>w. case success_rate s f of Inl ex \<Rightarrow> (Inl ex, w) | Inr rate \<Rightarrow> (Inr (), w))))))))"

text \<open>\<open>except Exception as e: print(...); raise\<close>\<close>

definition run_collection :: "env \<Rightarrow> int \<Rightarrow> unit action" where
  "run_collection e region_id w =
     (case run_try e region_id w of
        (Inl ex, w') \<Rightarrow> (Inl ex, w'\<lparr>out := out w' @ [CollectionFailed ex]\<rparr>)
      | (Inr u, w') \<Rightarrow> (Inr u, w'))"

definition run :: "env \<Rightarrow> unit action" where
  "run e =
     and_then (get_active_region e) (\<lambda>active.
       case active of
         None \<Rightarrow> print_line NoActiveRegion
       | Some (region_id, name, queries_per_day, interval_hours, last_queried, segment_count) \<Rightarrow>
           and_then utcnow (\<lambda>now.
             if \<not> should_query_now now last_queried interval_hours
             then print_line Skipping
             else run_collection e region_id))"

text \<open>
  The script: both environment variables must be set and not empty, the connection is
  opened, \<open>run\<close> is called. The exit status is 0 when \<open>run\<close> returns and 1 after
  \<open>sys.exit(1)\<close> or an exception that nothing catches. The result is the exit status
  and the database the process leaves behind.
\<close>

definition unset :: "string option \<Rightarrow> bool" where
  "unset v = (case v of None \<Rightarrow> True | Some s \<Rightarrow> s = [])"

definition main :: "env \<Rightarrow> string option \<Rightarrow> string option \<Rightarrow> datetime \<Rightarrow> database \<Rightarrow> nat \<times> database" where
  "main e DB_CONNECTION GOOGLE_API_KEY now db =
     (if unset DB_CONNECTION then (1, db)
      else if unset GOOGLE_API_KEY then (1, db)
      else if db_fails e Connect then (1, db)
      else (case run e \<lparr>clock = now, durable = db, txn = db, out = []\<rparr> of
              (Inl ex, w) \<Rightarrow> (1, durable w)
            | (Inr u, w) \<Rightarrow> (0, durable w)))"

section \<open>Notions used in the properties\<close>

text \<open>
  The arithmetic on the values of a usable element succeeds: distance, duration and
  current duration are numbers and neither quotient overflows.
\<close>

definition speeds_defined :: "json \<Rightarrow> json \<Rightarrow> json \<Rightarrow> bool" where
  "speeds_defined dv duration current =
     (case (as_int dv, as_int duration, as_int current) of
        (Some x, Some y, Some z) \<Rightarrow> \<not> too_large_for_float x y \<and> \<not> too_large_for_float x z
      | _ \<Rightarrow> False)"

text \<open>The state in which the loop of a collection started in \<open>w\<close> ends.\<close>

definition loop_result :: "env \<Rightarrow> int \<Rightarrow> world \<Rightarrow> loop_state" where
  "loop_result e region_id w =
     collect_loop e region_id (clock w) 0 (segments_of region_id (txn w)) (initial_loop_state w)"

text \<open>The three writes of a collection, applied to a database.\<close>

definition three_writes :: "int \<Rightarrow> nat \<Rightarrow> loop_state \<Rightarrow> int \<Rightarrow> database \<Rightarrow> database" where
  "three_writes region_id n st elapsed db =
     insert_query_log
       \<lparr>ql_region_id = region_id, ql_elements_queried = n,
        ql_successful_queries = successful st, ql_failed_queries = failed st,
        ql_api_response_time_ms = elapsed\<rparr>
       (insert_observations (observations st)
         (update_distances (segment_updates st) db))"

text \<open>
  The time a pass over \<open>n\<close> segments takes, from iteration \<open>idx\<close> on: the latency of
  each request and the pause after it; an iteration whose progress print raises takes
  no time.
\<close>

fun pass_duration :: "env \<Rightarrow> nat \<Rightarrow> nat \<Rightarrow> int" where
  "pass_duration e idx 0 = 0"
| "pass_duration e idx (Suc n) =
     (if stdout_broken e idx then 0 else int (api_latency e idx) + 200000)
     + pass_duration e (Suc idx) n"

section \<open>Sample inputs\<close>

definition body_of :: "json \<Rightarrow> json" where
  "body_of element =
     JDict [(''status'', JStr ''OK''),
            (''rows'', JList [JDict [(''elements'', JList [element])]])]"

definition element_freeflow :: json where
  "element_freeflow =
     JDict [(''status'', JStr ''OK''),
            (''duration'', JDict [(''text'', JStr ''10 mins''), (''value'', JInt 600)]),
            (''distance'', JDict [(''text'', JStr ''5.0 km''), (''value'', JInt 5000)])]"

definition element_traffic :: json where
  "element_traffic =
     JDict [(''status'', JStr ''OK''),
            (''duration'', JDict [(''text'', JStr ''10 mins''), (''value'', JInt 600)]),
            (''duration_in_traffic'', JDict [(''text'', JStr ''15 mins''), (''value'', JInt 900)]),
            (''distance'', JDict [(''text'', JStr ''5.0 km''), (''value'', JInt 5000)])]"


definition element_zero_traffic :: json where
  "element_zero_traffic =
     JDict [(''status'', JStr ''OK''),
            (''duration'', JDict [(''text'', JStr ''10 mins''), (''value'', JInt 600)]),
            (''duration_in_traffic'', JDict [(''text'', JStr ''1 min''), (''value'', JInt 0)]),
            (''distance'', JDict [(''text'', JStr ''5.0 km''), (''value'', JInt 5000)])]"

definition element_over_limit :: json where
  "element_over_limit = JDict [(''status'', JStr ''OVER_QUERY_LIMIT'')]"

definition body_over_limit :: json where
  "body_over_limit =
     JDict [(''status'', JStr ''OVER_QUERY_LIMIT''), (''rows'', JList []),
            (''error_message'', JStr ''You have exceeded your daily request quota.'')]"

definition segment :: "int \<Rightarrow> int \<Rightarrow> road_segment_row" where
  "segment segment_id region_id =
     \<lparr>rs_segment_id = segment_id, rs_region_id = region_id,
      rs_start_lat = ''12.9716'', rs_start_lng = ''77.5946'',
      rs_end_lat = ''12.9352'', rs_end_lng = ''77.6245'',
      rs_segment_distance_api = JNull\<rparr>"

text \<open>
  One active region, never queried, with three segments; a second region with one
  segment and no configuration.
\<close>

definition sample_db :: database where
  "sample_db =
     \<lparr>collection_config =
        [\<lparr>cc_region_id = 1, cc_is_active = True, cc_queries_per_day = 24,
          cc_interval_hours = 1, cc_last_queried_at = None, cc_updated_at = None\<rparr>],
      regions =
        [\<lparr>r_region_id = 1, r_region_name = Some ''Downtown'', r_segment_count = 3\<rparr>,
         \<lparr>r_region_id = 2, r_region_name = None, r_segment_count = 1\<rparr>],
      road_segments = [segment 11 1, segment 12 1, segment 21 2, segment 13 1],
      traffic_observations = [],
      query_log = []\<rparr>"

text \<open>The same with the region last queried at time \<open>t\<close>.\<close>

definition queried_db :: "datetime \<Rightarrow> database" where
  "queried_db t =
     sample_db\<lparr>collection_config :=
        [\<lparr>cc_region_id = 1, cc_is_active = True, cc_queries_per_day = 24,
          cc_interval_hours = 1, cc_last_queried_at = Some t, cc_updated_at = Some t\<rparr>]\<rparr>"

text \<open>The same with no segment in the active region, and with no active region.\<close>

definition empty_region_db :: database where
  "empty_region_db = sample_db\<lparr>road_segments := [segment 21 2]\<rparr>"

definition inactive_db :: database where
  "inactive_db =
     sample_db\<lparr>collection_config :=
        [\<lparr>cc_region_id = 1, cc_is_active = False, cc_queries_per_day = 24,
          cc_interval_hours = 1, cc_last_queried_at = None, cc_updated_at = None\<rparr>]\<rparr>"

text \<open>
  Every request takes a tenth of a second; the second one meets the quota, the others
  are answered with traffic. Nothing else goes wrong.
\<close>

definition sample_env :: env where
  "sample_env =
     \<lparr>api = (\<lambda>idx origin destination.
               if idx = 1 then JsonBody body_over_limit
               else JsonBody (body_of element_traffic)),
      api_latency = (\<lambda>idx. 100000),
      stdout_broken = (\<lambda>idx. False),
      db_fails = (\<lambda>op. False)\<rparr>"

text \<open>The same, but the insert into \<open>query_log\<close> raises.\<close>

definition failing_env :: env where
  "failing_env = sample_env\<lparr>db_fails := (\<lambda>op. op = InsertQueryLog)\<rparr>"

definition sample_world :: world where
  "sample_world = \<lparr>clock = 1000000, durable = sample_db, txn = sample_db, out = []\<rparr>"

section \<open>The client, step by step\<close>

lemma bind_result_Inr: "bind_result m f = Inr y \<longleftrightarrow> (\<exists>x. m = Inr x \<and> f x = Inr y)"
  by (cases m) auto

lemma bind_result_Inl: "bind_result m f = Inl e \<longleftrightarrow> m = Inl e \<or> (\<exists>x. m = Inr x \<and> f x = Inl e)"
  by (cases m) auto

lemma element_ok_Some:
  "element_ok element = Inr (ls, Some r) \<longleftrightarrow>
     (\<exists>duration dit dv.
        value_of element ''duration'' = Inr duration \<and>
        value_of element ''duration_in_traffic'' = Inr dit \<and>
        value_of element ''distance'' = Inr dv \<and>
        truthy duration \<and> truthy dv \<and>
        speeds_defined dv duration (if truthy dit then dit else duration) \<and>
        ls = [] \<and>
        r = \<lparr>distance = dv, freeflow_duration = duration,
             current_duration = (if truthy dit then dit else duration)\<rparr>)"
  unfolding element_ok_def bind_result_Inr Let_def py_sub_def py_truediv_def speeds_defined_def
  apply (cases "value_of element ''duration''"; cases "value_of element ''duration_in_traffic''"; cases "value_of element ''distance''"; simp)
  subgoal for duration dit dv
    by (cases duration; cases dit; cases dv; auto  split: option.splits if_splits)
  done

lemma parse_response_Some:
  "parse_response data = Inr (ls, Some r) \<longleftrightarrow>
     (\<exists>element.
        subscript data ''status'' = Inr (JStr ''OK'') \<and>
        first_element data = Inr element \<and>
        subscript element ''status'' = Inr (JStr ''OK'') \<and>
        element_ok element = Inr (ls, Some r))"
  by (cases "subscript data ''status''")
     (auto simp: parse_response_def bind_result_Inr split: if_splits)

lemma query_distance_matrix_Some:
  "query_distance_matrix reply = (ls, Some r) \<longleftrightarrow>
     (\<exists>data. reply = JsonBody data \<and> parse_response data = Inr (ls, Some r))"
  unfolding query_distance_matrix_def try_block_def
  by (cases reply) (auto split: sum.splits)

lemma quota_no_result:
  assumes "subscript data ''status'' = Inr (JStr ''OVER_QUERY_LIMIT'') \<or>
           (subscript data ''status'' = Inr (JStr ''OK'') \<and>
            (\<exists>element. first_element data = Inr element \<and>
               subscript element ''status'' = Inr (JStr ''OVER_QUERY_LIMIT'')))"
  shows "snd (query_distance_matrix (JsonBody data)) = None"
  using assms
  by (auto simp: query_distance_matrix_def try_block_def parse_response_def)


section \<open>Invariants of the loop\<close>




lemma collect_step_timestamp:
  "\<exists>new. observations (collect_step e rid ts idx seg st) = observations st @ new
         \<and> (\<forall>ob \<in> set new. obs_observed_at ob = ts)"
  by (simp add: collect_step_def Let_def split: option.splits)

lemma collect_step_clock:
  "l_clock (collect_step e rid ts idx seg st)
     = l_clock st + (if stdout_broken e idx then 0 else int (api_latency e idx) + 200000)"
  by (simp add: collect_step_def Let_def split: option.splits)




lemma collect_loop_timestamp:
  "\<exists>new. observations (collect_loop e rid ts idx segs st) = observations st @ new
         \<and> (\<forall>ob \<in> set new. obs_observed_at ob = ts)"
proof (induction segs arbitrary: idx st)
  case Nil
  show ?case by simp
next
  case (Cons seg segs)
  obtain new1 where 1: "observations (collect_step e rid ts idx seg st) = observations st @ new1"
      "\<forall>ob \<in> set new1. obs_observed_at ob = ts"
    using collect_step_timestamp by blast
  obtain new2 where 2: "observations (collect_loop e rid ts (Suc idx) segs (collect_step e rid ts idx seg st))
       = observations (collect_step e rid ts idx seg st) @ new2"
      "\<forall>ob \<in> set new2. obs_observed_at ob = ts"
    using Cons.IH by blast
  have "observations (collect_loop e rid ts idx (seg # segs) st) = observations st @ (new1 @ new2)"
    using 1 2 by simp
  moreover have "\<forall>ob \<in> set (new1 @ new2). obs_observed_at ob = ts"
    using 1 2 by auto
  ultimately show ?case by blast
qed

lemma collect_loop_clock:
  "l_clock (collect_loop e rid ts idx segs st) = l_clock st + pass_duration e idx (length segs)"
  by (induction segs arbitrary: idx st) (simp_all add: collect_step_clock)

lemma pass_duration_nonneg: "0 \<le> pass_duration e idx n"
  by (induction n arbitrary: idx) simp_all

text \<open>How a collection ends: a database call raised and nothing is committed, or the
  three writes are committed together.\<close>

lemma collect_traffic_data_cases:
  assumes "collect_traffic_data e rid w = (res, w')"
  shows "(res = Inl DatabaseError \<and> durable w' = durable w) \<or>
         (res = Inr (successful (loop_result e rid w), failed (loop_result e rid w)) \<and>
          durable w' = three_writes rid (length (segments_of rid (txn w))) (loop_result e rid w)
                         (pass_duration e 0 (length (segments_of rid (txn w))) div 1000) (txn w) \<and>
          txn w' = durable w' \<and>
          clock w' = clock w + pass_duration e 0 (length (segments_of rid (txn w))) \<and>
          out w' = l_out (loop_result e rid w))"
proof -
  have clk: "l_clock (loop_result e rid w) = clock w + pass_duration e 0 (length (segments_of rid (txn w)))"
    by (simp add: loop_result_def collect_loop_clock initial_loop_state_def)
  have upd: "update_distances [] db = db" for db
    by (simp add: update_distances_def)
  have ins: "insert_observations [] db = db" for db
    by (simp add: insert_observations_def)
  show ?thesis
    using assms clk
    by (auto simp: collect_traffic_data_def and_then_def select_segments_def utcnow_def
        run_loop_def skip_def execute_def commit_def Let_def three_writes_def
        loop_result_def [symmetric] upd ins
        split: if_splits)
qed


section \<open>The sample inputs, evaluated\<close>

lemmas client_defs = query_distance_matrix_def try_block_def parse_response_def
  first_element_def element_ok_def value_of_def py_sub_def py_truediv_def
  too_large_for_float_def Let_def body_of_def

lemmas collect_defs = collect_traffic_data_def and_then_def select_segments_def utcnow_def
  run_loop_def skip_def execute_def commit_def segments_of_def initial_loop_state_def
  collect_step_def update_distances_def update_distance_def insert_observations_def
  insert_query_log_def

lemmas sample_defs = sample_env_def sample_world_def sample_db_def segment_def
  element_traffic_def body_over_limit_def failing_env_def

lemma sample_collect_result:
  "fst (collect_traffic_data sample_env 1 sample_world) = Inr (2, 1)"
  by (simp add: collect_defs client_defs sample_defs)

lemma sample_segments: "segments_of 1 sample_db = [segment 11 1, segment 12 1, segment 13 1]"
  by (simp add: segments_of_def sample_defs)

section \<open>The orchestrator, step by step\<close>

lemma run_collection_raises:
  assumes "collect_traffic_data e region_id w = (Inl ex, w')"
  shows "run_collection e region_id w = (Inl ex, w'\<lparr>out := out w' @ [CollectionFailed ex]\<rparr>)"
  using assms by (simp add: run_collection_def run_try_def and_then_def)

lemma run_collection_updates_config:
  assumes "collect_traffic_data e region_id w = (Inr (s, f), w1)"
    and "\<not> db_fails e UpdateConfig" and "\<not> db_fails e CommitConfig"
  shows "run_collection e region_id w =
           (case success_rate s f of Inl ex \<Rightarrow> Inl ex | Inr rate \<Rightarrow> Inr (),
            w1\<lparr>txn := update_config (clock w1) (clock w1) region_id (txn w1),
               durable := update_config (clock w1) (clock w1) region_id (txn w1),
               out := out w1 @ CollectionComplete s f #
                 (case success_rate s f of Inl ex \<Rightarrow> [CollectionFailed ex] | Inr rate \<Rightarrow> [])\<rparr>)"
  using assms
  by (cases "success_rate s f")
     (simp_all add: run_collection_def run_try_def and_then_def utcnow_def execute_def
        commit_def print_line_def)

lemma collect_keeps_config:
  assumes "collect_traffic_data e region_id w = (Inr (s, f), w1)"
  shows "collection_config (txn w1) = collection_config (txn w)"
  using collect_traffic_data_cases [OF assms]
  by (auto simp: three_writes_def insert_query_log_def insert_observations_def
      update_distances_def)

lemma run_sample: "run sample_env sample_world = run_collection sample_env 1 sample_world"
  by (simp add: run_def get_active_region_def active_rows_def and_then_def utcnow_def
      should_query_now_def sample_env_def sample_world_def sample_db_def)

lemma update_config_rows:
  assumes "cc \<in> set (collection_config (update_config t1 t2 region_id db))"
    and "cc_region_id cc = region_id"
  shows "cc_last_queried_at cc = Some t1 \<and> cc_updated_at cc = Some t2"
proof -
  let ?f = "\<lambda>cc. if cc_region_id cc = region_id
                then cc\<lparr>cc_last_queried_at := Some t1, cc_updated_at := Some t2\<rparr> else cc"
  have "collection_config (update_config t1 t2 region_id db) = map ?f (collection_config db)"
    by (simp add: update_config_def)
  with assms(1) have "cc \<in> ?f ` set (collection_config db)"
    by (simp only: set_map)
  then obtain x where cc: "cc = ?f x" by (rule imageE)
  show ?thesis
  proof (cases "cc_region_id x = region_id")
    case True
    with cc show ?thesis by simp
  next
    case False
    with cc assms(2) show ?thesis by simp
  qed
qed


lemma sample_collect_clock:
  "clock (snd (collect_traffic_data sample_env 1 sample_world)) = 1900000"
  by (simp add: collect_defs client_defs sample_defs)

lemma failing_collect_result:
  "fst (collect_traffic_data failing_env 1 sample_world) = Inl DatabaseError"
  by (simp add: collect_defs client_defs sample_defs)

lemma run_no_active_region:
  assumes "\<not> db_fails e SelectActiveRegion" and "active_rows (txn w) = []"
  shows "run e w = (Inr (), w\<lparr>out := out w @ [NoActiveRegion]\<rparr>)"
  using assms
  by (simp add: run_def get_active_region_def and_then_def print_line_def)

lemma run_not_due:
  assumes "\<not> db_fails e SelectActiveRegion"
    and "active_rows (txn w) = (region_id, name, qpd, interval_hours, last_queried, n) # rest"
    and "\<not> should_query_now (clock w) last_queried interval_hours"
  shows "run e w = (Inr (), w\<lparr>out := out w @ [Skipping]\<rparr>)"
  using assms
  by (simp add: run_def get_active_region_def and_then_def print_line_def utcnow_def)

lemma run_due:
  assumes "\<not> db_fails e SelectActiveRegion"
    and "active_rows (txn w) = (region_id, name, qpd, interval_hours, last_queried, n) # rest"
    and "should_query_now (clock w) last_queried interval_hours"
  shows "run e w = run_collection e region_id w"
  using assms
  by (simp add: run_def get_active_region_def and_then_def utcnow_def)

lemma main_runs:
  assumes "\<not> unset c" and "\<not> unset k" and "\<not> db_fails e Connect"
  shows "main e c k now db =
           (case fst (run e \<lparr>clock = now, durable = db, txn = db, out = []\<rparr>) of
              Inl ex \<Rightarrow> 1 | Inr u \<Rightarrow> 0,
            durable (snd (run e \<lparr>clock = now, durable = db, txn = db, out = []\<rparr>)))"
  using assms
  by (simp add: main_def split: prod.splits sum.splits)

lemma collect_empty_region:
  assumes "segments_of region_id (txn w) = []" and "\<forall>op. \<not> db_fails e op"
  shows "collect_traffic_data e region_id w =
           (Inr (0, 0),
            w\<lparr>txn := insert_query_log
                   \<lparr>ql_region_id = region_id, ql_elements_queried = 0,
                    ql_successful_queries = 0, ql_failed_queries = 0,
                    ql_api_response_time_ms = 0\<rparr> (txn w),
              durable := insert_query_log
                   \<lparr>ql_region_id = region_id, ql_elements_queried = 0,
                    ql_successful_queries = 0, ql_failed_queries = 0,
                    ql_api_response_time_ms = 0\<rparr> (txn w)\<rparr>)"
  using assms
  by (simp add: collect_traffic_data_def and_then_def select_segments_def utcnow_def
      run_loop_def skip_def execute_def commit_def initial_loop_state_def)

lemma inactive_rows: "active_rows inactive_db = []"
  by (simp add: active_rows_def inactive_db_def sample_db_def)

lemma queried_rows:
  "active_rows (queried_db t) = [(1, Some ''Downtown'', 24, 1, Some t, 3)]"
  by (simp add: active_rows_def queried_db_def sample_db_def)

lemma empty_region_rows:
  "active_rows empty_region_db = [(1, Some ''Downtown'', 24, 1, None, 3)]"
  by (simp add: active_rows_def empty_region_db_def sample_db_def)

lemma empty_region_segments: "segments_of 1 empty_region_db = []"
  by (simp add: segments_of_def empty_region_db_def sample_db_def segment_def)

section \<open>The interval gate: properties\<close>



section \<open>The client: properties\<close>




text \<open>
  C4, as stated, fails: a \<open>duration_in_traffic\<close> value that is present and 0 is not the
  current duration; the base duration is.
\<close>

theorem current_duration_is_traffic_when_present_counterexample:
  "first_element (body_of element_zero_traffic) = Inr element_zero_traffic \<and>
   subscript element_zero_traffic ''status'' = Inr (JStr ''OK'') \<and>
   value_of element_zero_traffic ''duration_in_traffic'' = Inr (JInt 0) \<and>
   query_distance_matrix (JsonBody (body_of element_zero_traffic)) =
     ([], Some \<lparr>distance = JInt 5000, freeflow_duration = JInt 600,
                current_duration = JInt 600\<rparr>)"
  by (simp add: client_defs element_zero_traffic_def)

text \<open>
  C4, amended. The current duration of a result is the \<open>duration_in_traffic\<close> value
  when that is there and true (not 0), and the base duration otherwise; the freeflow
  duration is the base duration.
\<close>

theorem current_duration_fallback:
  assumes "query_distance_matrix (JsonBody data) = (ls, Some r)"
  shows "\<exists>element duration dit.
           first_element data = Inr element \<and>
           value_of element ''duration'' = Inr duration \<and>
           value_of element ''duration_in_traffic'' = Inr dit \<and>
           freeflow_duration r = duration \<and>
           current_duration r = (if truthy dit then dit else duration)"
  using assms
  unfolding query_distance_matrix_Some parse_response_Some element_ok_Some
  by auto

theorem current_duration_fallback_witness:
  "query_distance_matrix (JsonBody (body_of element_traffic)) =
     ([], Some \<lparr>distance = JInt 5000, freeflow_duration = JInt 600,
                current_duration = JInt 900\<rparr>) \<and>
   query_distance_matrix (JsonBody (body_of element_freeflow)) =
     ([], Some \<lparr>distance = JInt 5000, freeflow_duration = JInt 600,
                current_duration = JInt 600\<rparr>) \<and>
   (\<exists>duration dit.
      value_of element_traffic ''duration'' = Inr duration \<and>
      value_of element_traffic ''duration_in_traffic'' = Inr dit \<and>
      JInt 600 = duration \<and> JInt 900 = (if truthy dit then dit else duration)) \<and>
   (\<exists>duration dit.
      value_of element_freeflow ''duration'' = Inr duration \<and>
      value_of element_freeflow ''duration_in_traffic'' = Inr dit \<and>
      JInt 600 = duration \<and> JInt 600 = (if truthy dit then dit else duration))"
proof -
  have t: "query_distance_matrix (JsonBody (body_of element_traffic)) =
     ([], Some \<lparr>distance = JInt 5000, freeflow_duration = JInt 600,
                current_duration = JInt 900\<rparr>)"
    by (simp add: client_defs element_traffic_def)
  have f: "query_distance_matrix (JsonBody (body_of element_freeflow)) =
     ([], Some \<lparr>distance = JInt 5000, freeflow_duration = JInt 600,
                current_duration = JInt 600\<rparr>)"
    by (simp add: client_defs element_freeflow_def)
  have et: "first_element (body_of element_traffic) = Inr element_traffic"
    and ef: "first_element (body_of element_freeflow) = Inr element_freeflow"
    by (simp_all add: first_element_def body_of_def)
  from current_duration_fallback [OF t] current_duration_fallback [OF f] t f et ef
  show ?thesis by simp
qed

text \<open>
  C5. A reply whose top-level status is \<open>OVER_QUERY_LIMIT\<close>, or whose top-level status
  is \<open>OK\<close> and whose first element has status \<open>OVER_QUERY_LIMIT\<close>, gives no result; the
  iteration counts one more failure, adds no observation and no update, and the loop
  goes on with the next segment.
\<close>

theorem over_query_limit_is_a_failed_segment:
  assumes "subscript data ''status'' = Inr (JStr ''OVER_QUERY_LIMIT'') \<or>
           (subscript data ''status'' = Inr (JStr ''OK'') \<and>
            (\<exists>element. first_element data = Inr element \<and>
               subscript element ''status'' = Inr (JStr ''OVER_QUERY_LIMIT'')))"
    and "api e idx (rs_start_lat seg @ '','' @ rs_start_lng seg)
           (rs_end_lat seg @ '','' @ rs_end_lng seg) = JsonBody data"
  shows "snd (query_distance_matrix (JsonBody data)) = None \<and>
         (\<exists>st'. collect_loop e region_id timestamp idx (seg # segs) st
                  = collect_loop e region_id timestamp (Suc idx) segs st' \<and>
                failed st' = failed st + 1 \<and>
                successful st' = successful st \<and>
                observations st' = observations st \<and>
                segment_updates st' = segment_updates st \<and>
                l_clock st' = l_clock st +
                  (if stdout_broken e idx then 0 else int (api_latency e idx) + 200000))"
proof
  show none: "snd (query_distance_matrix (JsonBody data)) = None"
    using assms(1) by (rule quota_no_result)
  let ?st' = "collect_step e region_id timestamp idx seg st"
  have "failed ?st' = failed st + 1 \<and> successful ?st' = successful st \<and>
        observations ?st' = observations st \<and> segment_updates ?st' = segment_updates st"
    using none assms(2) by (simp add: collect_step_def Let_def)
  then show "\<exists>st'. collect_loop e region_id timestamp idx (seg # segs) st
                  = collect_loop e region_id timestamp (Suc idx) segs st' \<and>
                failed st' = failed st + 1 \<and>
                successful st' = successful st \<and>
                observations st' = observations st \<and>
                segment_updates st' = segment_updates st \<and>
                l_clock st' = l_clock st +
                  (if stdout_broken e idx then 0 else int (api_latency e idx) + 200000)"
    using collect_step_clock [of e region_id timestamp idx seg st]
    by (intro exI [of _ ?st']) simp
qed

theorem over_query_limit_is_a_failed_segment_witness:
  "snd (query_distance_matrix (JsonBody body_over_limit)) = None \<and>
   snd (query_distance_matrix (JsonBody (body_of element_over_limit))) = None \<and>
   (\<exists>st'. collect_loop sample_env 1 1000000 1 [segment 12 1, segment 13 1]
             (initial_loop_state sample_world)
            = collect_loop sample_env 1 1000000 2 [segment 13 1] st' \<and>
          failed st' = 1 \<and> successful st' = 0 \<and> observations st' = [] \<and>
          segment_updates st' = [] \<and> l_clock st' = 1300000)"
proof -
  have a: "subscript body_over_limit ''status'' = Inr (JStr ''OVER_QUERY_LIMIT'') \<or>
           (subscript body_over_limit ''status'' = Inr (JStr ''OK'') \<and>
            (\<exists>element. first_element body_over_limit = Inr element \<and>
               subscript element ''status'' = Inr (JStr ''OVER_QUERY_LIMIT'')))"
    by (simp add: body_over_limit_def)
  have b: "api sample_env 1 (rs_start_lat (segment 12 1) @ '','' @ rs_start_lng (segment 12 1))
           (rs_end_lat (segment 12 1) @ '','' @ rs_end_lng (segment 12 1)) = JsonBody body_over_limit"
    by (simp add: sample_env_def)
  have c: "subscript (body_of element_over_limit) ''status'' = Inr (JStr ''OVER_QUERY_LIMIT'') \<or>
           (subscript (body_of element_over_limit) ''status'' = Inr (JStr ''OK'') \<and>
            (\<exists>element. first_element (body_of element_over_limit) = Inr element \<and>
               subscript element ''status'' = Inr (JStr ''OVER_QUERY_LIMIT'')))"
    by (simp add: body_of_def first_element_def element_over_limit_def)
  have d: "api (sample_env\<lparr>api := \<lambda>idx origin destination. JsonBody (body_of element_over_limit)\<rparr>) 0
             (rs_start_lat (segment 12 1) @ '','' @ rs_start_lng (segment 12 1))
             (rs_end_lat (segment 12 1) @ '','' @ rs_end_lng (segment 12 1))
           = JsonBody (body_of element_over_limit)"
    by simp
  from over_query_limit_is_a_failed_segment [OF a b, of 1 1000000 "[segment 13 1]"
      "initial_loop_state sample_world"]
    over_query_limit_is_a_failed_segment [OF c d, of 1 1000000 "[]"
      "initial_loop_state sample_world"]
  show ?thesis
    by (simp add: initial_loop_state_def sample_world_def sample_env_def numeral_2_eq_2)
qed


section \<open>Collecting: properties\<close>



text \<open>
  C8. The observation rows a collection adds all carry the time read on entry, before
  the loop.
\<close>

theorem observations_share_one_timestamp:
  assumes "collect_traffic_data e region_id w = (Inr (s, f), w')"
  shows "\<exists>obs. traffic_observations (durable w') = traffic_observations (txn w) @ obs \<and>
               (\<forall>ob \<in> set obs. obs_observed_at ob = clock w)"
proof -
  let ?segs = "segments_of region_id (txn w)"
  let ?st = "loop_result e region_id w"
  from collect_traffic_data_cases [OF assms]
  have d: "durable w' = three_writes region_id (length ?segs) ?st
              (pass_duration e 0 (length ?segs) div 1000) (txn w)"
    by auto
  obtain new where "observations ?st = observations (initial_loop_state w) @ new"
    and ts: "\<forall>ob \<in> set new. obs_observed_at ob = clock w"
    unfolding loop_result_def using collect_loop_timestamp by blast
  then have "observations ?st = new"
    by (simp add: initial_loop_state_def)
  with ts show ?thesis
    unfolding d three_writes_def insert_query_log_def insert_observations_def
      update_distances_def
    by simp
qed

theorem observations_share_one_timestamp_witness:
  "fst (collect_traffic_data sample_env 1 sample_world) = Inr (2, 1) \<and>
   clock sample_world = 1000000 \<and>
   (\<exists>obs. traffic_observations (durable (snd (collect_traffic_data sample_env 1 sample_world)))
            = traffic_observations (txn sample_world) @ obs \<and>
          (\<forall>ob \<in> set obs. obs_observed_at ob = 1000000))"
proof -
  have h: "collect_traffic_data sample_env 1 sample_world
             = (Inr (2, 1), snd (collect_traffic_data sample_env 1 sample_world))"
    using sample_collect_result by (simp add: prod_eq_iff)
  have c: "clock sample_world = 1000000"
    by (simp add: sample_world_def)
  from observations_share_one_timestamp [OF h] sample_collect_result c
  show ?thesis by simp
qed


text \<open>
  C6. A collection either commits its three writes together (the distance updates, the
  observation rows and the one \<open>query_log\<close> row, on top of what the transaction saw),
  or a database call raises: then nothing of it is committed, and the exception leaves
  \<open>run\<close>'s \<open>try\<close> block as it came.
\<close>

theorem collection_writes_are_atomic:
  assumes "collect_traffic_data e region_id w = (res, w')"
  shows "(\<forall>s f. res = Inr (s, f) \<longrightarrow>
            (\<exists>elapsed. durable w' =
               three_writes region_id (length (segments_of region_id (txn w)))
                 (loop_result e region_id w) elapsed (txn w)))
       \<and> (\<forall>ex. res = Inl ex \<longrightarrow>
            durable w' = durable w \<and>
            (\<exists>w''. run_collection e region_id w = (Inl ex, w'') \<and> durable w'' = durable w))"
proof (intro conjI allI impI)
  fix s f
  assume "res = Inr (s, f)"
  with collect_traffic_data_cases [OF assms]
  show "\<exists>elapsed. durable w' =
               three_writes region_id (length (segments_of region_id (txn w)))
                 (loop_result e region_id w) elapsed (txn w)"
    by auto
next
  fix ex
  assume r: "res = Inl ex"
  with collect_traffic_data_cases [OF assms]
  show "durable w' = durable w" by auto
next
  fix ex
  assume r: "res = Inl ex"
  with collect_traffic_data_cases [OF assms]
  have d: "durable w' = durable w" by auto
  from assms r have "run_collection e region_id w
        = (Inl ex, w'\<lparr>out := out w' @ [CollectionFailed ex]\<rparr>)"
    by (simp add: run_collection_raises)
  with d show "\<exists>w''. run_collection e region_id w = (Inl ex, w'') \<and> durable w'' = durable w"
    by simp
qed

theorem collection_writes_are_atomic_witness:
  "fst (collect_traffic_data sample_env 1 sample_world) = Inr (2, 1) \<and>
   (\<exists>elapsed. durable (snd (collect_traffic_data sample_env 1 sample_world)) =
      three_writes 1 3 (loop_result sample_env 1 sample_world) elapsed sample_db) \<and>
   fst (collect_traffic_data failing_env 1 sample_world) = Inl DatabaseError \<and>
   durable (snd (collect_traffic_data failing_env 1 sample_world)) = sample_db \<and>
   (\<exists>w''. run_collection failing_env 1 sample_world = (Inl DatabaseError, w'') \<and>
          durable w'' = sample_db)"
proof -
  have h: "collect_traffic_data sample_env 1 sample_world
             = (Inr (2, 1), snd (collect_traffic_data sample_env 1 sample_world))"
    using sample_collect_result by (simp add: prod_eq_iff)
  have g: "collect_traffic_data failing_env 1 sample_world
             = (Inl DatabaseError, snd (collect_traffic_data failing_env 1 sample_world))"
    using failing_collect_result by (simp add: prod_eq_iff)
  have db: "txn sample_world = sample_db" "durable sample_world = sample_db"
    by (simp_all add: sample_world_def)
  from collection_writes_are_atomic [OF h] collection_writes_are_atomic [OF g]
    sample_collect_result failing_collect_result
  show ?thesis
    unfolding db sample_segments by (simp add: numeral_3_eq_3)
qed

section \<open>The orchestrator: properties\<close>

text \<open>
  C7, as stated, fails: in the sample run the pass starts at 1000000 and ends at
  1900000, and the \<open>last_queried_at\<close> written is 1900000, the time after the pass.
\<close>

theorem last_queried_at_is_start_of_run_counterexample:
  "clock sample_world = 1000000 \<and>
   clock (snd (collect_traffic_data sample_env 1 sample_world)) = 1900000 \<and>
   map cc_last_queried_at
     (collection_config (durable (snd (run sample_env sample_world)))) = [Some 1900000]"
proof -
  have h: "collect_traffic_data sample_env 1 sample_world
             = (Inr (2, 1), snd (collect_traffic_data sample_env 1 sample_world))"
    using sample_collect_result by (simp add: prod_eq_iff)
  have u: "\<not> db_fails sample_env UpdateConfig" and c: "\<not> db_fails sample_env CommitConfig"
    by (simp_all add: sample_env_def)
  have k: "collection_config (txn (snd (collect_traffic_data sample_env 1 sample_world)))
             = collection_config sample_db"
    using collect_keeps_config [OF h] by (simp add: sample_world_def)
  have "map cc_last_queried_at
     (collection_config (durable (snd (run_collection sample_env 1 sample_world))))
      = [Some 1900000]"
    unfolding run_collection_updates_config [OF h u c]
    by (simp add: update_config_def k sample_collect_clock sample_db_def)
  moreover have "clock sample_world = 1000000"
    by (simp add: sample_world_def)
  ultimately show ?thesis
    by (simp add: run_sample sample_collect_clock)
qed

text \<open>
  C7, amended. When the collection returns and the update and its commit do not raise,
  \<open>last_queried_at\<close> and \<open>updated_at\<close> of the region's configuration rows are
  committed as the time read after the collection pass: the time the collection
  started plus the duration of the pass.
\<close>

theorem last_queried_at_is_read_after_the_pass:
  assumes "collect_traffic_data e region_id w = (Inr (s, f), w1)"
    and "\<not> db_fails e UpdateConfig" and "\<not> db_fails e CommitConfig"
  shows "\<exists>res w'. run_collection e region_id w = (res, w') \<and>
           durable w' = update_config (clock w1) (clock w1) region_id (durable w1) \<and>
           clock w1 = clock w + pass_duration e 0 (length (segments_of region_id (txn w))) \<and>
           clock w \<le> clock w1 \<and>
           (\<forall>cc \<in> set (collection_config (durable w')).
              cc_region_id cc = region_id \<longrightarrow>
              cc_last_queried_at cc = Some (clock w1) \<and> cc_updated_at cc = Some (clock w1))"
proof -
  from collect_traffic_data_cases [OF assms(1)]
  have t: "txn w1 = durable w1"
    and c: "clock w1 = clock w + pass_duration e 0 (length (segments_of region_id (txn w)))"
    by auto
  from c have le: "clock w \<le> clock w1"
    using pass_duration_nonneg [of e 0 "length (segments_of region_id (txn w))"] by simp
  let ?db = "update_config (clock w1) (clock w1) region_id (durable w1)"
  from run_collection_updates_config [OF assms] t
  have "durable (snd (run_collection e region_id w)) = ?db"
    by simp
  moreover have "\<forall>cc \<in> set (collection_config ?db).
              cc_region_id cc = region_id \<longrightarrow>
              cc_last_queried_at cc = Some (clock w1) \<and> cc_updated_at cc = Some (clock w1)"
    using update_config_rows by blast
  ultimately show ?thesis
    using c le
    by (intro exI [of _ "fst (run_collection e region_id w)"]
        exI [of _ "snd (run_collection e region_id w)"]) simp
qed

theorem last_queried_at_is_read_after_the_pass_witness:
  "fst (collect_traffic_data sample_env 1 sample_world) = Inr (2, 1) \<and>
   \<not> db_fails sample_env UpdateConfig \<and> \<not> db_fails sample_env CommitConfig \<and>
   (\<exists>res w'. run_collection sample_env 1 sample_world = (res, w') \<and>
      1900000 = 1000000 + pass_duration sample_env 0 3 \<and>
      (\<forall>cc \<in> set (collection_config (durable w')).
              cc_region_id cc = 1 \<longrightarrow>
              cc_last_queried_at cc = Some 1900000 \<and> cc_updated_at cc = Some 1900000))"
proof -
  have h: "collect_traffic_data sample_env 1 sample_world
             = (Inr (2, 1), snd (collect_traffic_data sample_env 1 sample_world))"
    using sample_collect_result by (simp add: prod_eq_iff)
  have u: "\<not> db_fails sample_env UpdateConfig" and c: "\<not> db_fails sample_env CommitConfig"
    by (simp_all add: sample_env_def)
  have n: "length (segments_of 1 (txn sample_world)) = 3"
    by (simp add: sample_world_def sample_segments)
  have k: "clock sample_world = 1000000"
    by (simp add: sample_world_def)
  from last_queried_at_is_read_after_the_pass [OF h u c]
  obtain res w' where "run_collection sample_env 1 sample_world = (res, w')"
    and "1900000 = 1000000 + pass_duration sample_env 0 3"
    and "\<forall>cc \<in> set (collection_config (durable w')).
              cc_region_id cc = 1 \<longrightarrow>
              cc_last_queried_at cc = Some 1900000 \<and> cc_updated_at cc = Some 1900000"
    unfolding sample_collect_clock n k by blast
  with sample_collect_result u c show ?thesis by blast
qed


text \<open>
  C9. When the read of the active region finds none, or the gate says the region is not
  due, \<open>run\<close> returns without raising and has changed neither the committed database
  nor the transaction; the script then ends with status 0 and leaves the database as
  it found it.
\<close>

theorem skip_paths_write_nothing:
  assumes "\<not> db_fails e SelectActiveRegion"
    and "active_rows (txn w) = [] \<or>
         (\<exists>region_id name qpd interval_hours last_queried n rest.
            active_rows (txn w) = (region_id, name, qpd, interval_hours, last_queried, n) # rest \<and>
            \<not> should_query_now (clock w) last_queried interval_hours)"
  shows "(\<exists>w'. run e w = (Inr (), w') \<and> durable w' = durable w \<and> txn w' = txn w) \<and>
         (\<not> unset c \<and> \<not> unset k \<and> \<not> db_fails e Connect \<and>
          w = \<lparr>clock = now, durable = db, txn = db, out = []\<rparr> \<longrightarrow>
          main e c k now db = (0, db))"
proof -
  from assms(2) have "\<exists>l. run e w = (Inr (), w\<lparr>out := out w @ [l]\<rparr>)"
  proof
    assume "active_rows (txn w) = []"
    with assms(1) have "run e w = (Inr (), w\<lparr>out := out w @ [NoActiveRegion]\<rparr>)"
      by (rule run_no_active_region)
    then show ?thesis by (rule exI)
  next
    assume "\<exists>region_id name qpd interval_hours last_queried n rest.
            active_rows (txn w) = (region_id, name, qpd, interval_hours, last_queried, n) # rest \<and>
            \<not> should_query_now (clock w) last_queried interval_hours"
    then obtain region_id name qpd interval_hours last_queried n rest where
      "active_rows (txn w) = (region_id, name, qpd, interval_hours, last_queried, n) # rest"
      "\<not> should_query_now (clock w) last_queried interval_hours"
      by blast
    with assms(1) have "run e w = (Inr (), w\<lparr>out := out w @ [Skipping]\<rparr>)"
      by (rule run_not_due)
    then show ?thesis by (rule exI)
  qed
  then obtain l where r: "run e w = (Inr (), w\<lparr>out := out w @ [l]\<rparr>)" ..
  have 1: "\<exists>w'. run e w = (Inr (), w') \<and> durable w' = durable w \<and> txn w' = txn w"
    unfolding r by simp
  have 2: "\<not> unset c \<and> \<not> unset k \<and> \<not> db_fails e Connect \<and>
          w = \<lparr>clock = now, durable = db, txn = db, out = []\<rparr> \<longrightarrow>
          main e c k now db = (0, db)"
  proof
    assume a: "\<not> unset c \<and> \<not> unset k \<and> \<not> db_fails e Connect \<and>
          w = \<lparr>clock = now, durable = db, txn = db, out = []\<rparr>"
    then have "run e \<lparr>clock = now, durable = db, txn = db, out = []\<rparr>
                = (Inr (), w\<lparr>out := out w @ [l]\<rparr>)"
      using r by simp
    moreover from a have "durable w = db" by simp
    ultimately show "main e c k now db = (0, db)"
      using a by (simp add: main_runs)
  qed
  from 1 2 show ?thesis ..
qed

theorem skip_paths_write_nothing_witness:
  "main sample_env (Some ''postgresql://db'') (Some ''key'') 1000000 inactive_db
     = (0, inactive_db) \<and>
   main sample_env (Some ''postgresql://db'') (Some ''key'') 3599999999 (queried_db 0)
     = (0, queried_db 0)"
proof -
  have s: "\<not> db_fails sample_env SelectActiveRegion" and c: "\<not> db_fails sample_env Connect"
    by (simp_all add: sample_env_def)
  have u: "\<not> unset (Some ''postgresql://db'')" "\<not> unset (Some ''key'')"
    by (simp_all add: unset_def)
  let ?w1 = "\<lparr>clock = 1000000, durable = inactive_db, txn = inactive_db, out = []\<rparr>"
  let ?w2 = "\<lparr>clock = 3599999999, durable = queried_db 0, txn = queried_db 0, out = []\<rparr>"
  have a1: "active_rows (txn ?w1) = [] \<or>
         (\<exists>region_id name qpd interval_hours last_queried n rest.
            active_rows (txn ?w1) = (region_id, name, qpd, interval_hours, last_queried, n) # rest \<and>
            \<not> should_query_now (clock ?w1) last_queried interval_hours)"
    by (simp add: inactive_rows)
  have "\<not> should_query_now 3599999999 (Some 0) 1"
    by (simp add: should_query_now_def total_seconds_def)
  then have a2: "active_rows (txn ?w2) = [] \<or>
         (\<exists>region_id name qpd interval_hours last_queried n rest.
            active_rows (txn ?w2) = (region_id, name, qpd, interval_hours, last_queried, n) # rest \<and>
            \<not> should_query_now (clock ?w2) last_queried interval_hours)"
    by (simp add: queried_rows)
  from skip_paths_write_nothing [OF s a1, of "Some ''postgresql://db''" "Some ''key''" 1000000 inactive_db]
    skip_paths_write_nothing [OF s a2, of "Some ''postgresql://db''" "Some ''key''" 3599999999 "queried_db 0"]
    u c
  show ?thesis by blast
qed

text \<open>
  C10. When the active region is due, has no segment, and no database call raises, the
  collection returns \<open>(0, 0)\<close> with its \<open>query_log\<close> row committed, the update of
  \<open>last_queried_at\<close> is committed too, and then the success rate divides by zero:
  \<open>run\<close> raises \<open>ZeroDivisionError\<close> and the script ends with status 1, the database
  changed.
\<close>

theorem empty_region_raises_after_both_commits:
  assumes "active_rows (txn w) = (region_id, name, qpd, interval_hours, last_queried, n) # rest"
    and "should_query_now (clock w) last_queried interval_hours"
    and "segments_of region_id (txn w) = []"
    and "\<forall>op. \<not> db_fails e op"
  shows "(\<exists>w1. collect_traffic_data e region_id w = (Inr (0, 0), w1) \<and>
            durable w1 = insert_query_log
                   \<lparr>ql_region_id = region_id, ql_elements_queried = 0,
                    ql_successful_queries = 0, ql_failed_queries = 0,
                    ql_api_response_time_ms = 0\<rparr> (txn w)) \<and>
         (\<exists>w'. run e w = (Inl ZeroDivisionError, w') \<and>
            durable w' = update_config (clock w) (clock w) region_id
              (insert_query_log
                   \<lparr>ql_region_id = region_id, ql_elements_queried = 0,
                    ql_successful_queries = 0, ql_failed_queries = 0,
                    ql_api_response_time_ms = 0\<rparr> (txn w))) \<and>
         (\<not> unset c \<and> \<not> unset k \<and> w = \<lparr>clock = now, durable = db, txn = db, out = []\<rparr> \<longrightarrow>
            fst (main e c k now db) = 1 \<and> snd (main e c k now db) \<noteq> db)"
proof -
  let ?row = "\<lparr>ql_region_id = region_id, ql_elements_queried = 0,
                    ql_successful_queries = 0, ql_failed_queries = 0,
                    ql_api_response_time_ms = 0\<rparr>"
  let ?w1 = "w\<lparr>txn := insert_query_log ?row (txn w), durable := insert_query_log ?row (txn w)\<rparr>"
  have col: "collect_traffic_data e region_id w = (Inr (0, 0), ?w1)"
    using assms(3,4) by (rule collect_empty_region)
  have nf: "\<not> db_fails e SelectActiveRegion" "\<not> db_fails e UpdateConfig"
    "\<not> db_fails e CommitConfig" "\<not> db_fails e Connect"
    using assms(4) by simp_all
  have "run e w = run_collection e region_id w"
    using nf(1) assms(1,2) by (rule run_due)
  also note run_collection_updates_config [OF col nf(2,3)]
  finally have r: "fst (run e w) = Inl ZeroDivisionError"
    "durable (snd (run e w)) = update_config (clock w) (clock w) region_id
        (insert_query_log ?row (txn w))"
    by (simp_all add: success_rate_def)
  have 1: "\<exists>w1. collect_traffic_data e region_id w = (Inr (0, 0), w1) \<and>
            durable w1 = insert_query_log ?row (txn w)"
    unfolding col by simp
  have 2: "\<exists>w'. run e w = (Inl ZeroDivisionError, w') \<and>
            durable w' = update_config (clock w) (clock w) region_id
              (insert_query_log ?row (txn w))"
    using r by (intro exI [of _ "snd (run e w)"]) (simp add: prod_eq_iff)
  have 3: "\<not> unset c \<and> \<not> unset k \<and> w = \<lparr>clock = now, durable = db, txn = db, out = []\<rparr> \<longrightarrow>
            fst (main e c k now db) = 1 \<and> snd (main e c k now db) \<noteq> db"
  proof
    assume a: "\<not> unset c \<and> \<not> unset k \<and> w = \<lparr>clock = now, durable = db, txn = db, out = []\<rparr>"
    then have m: "main e c k now db =
           (case fst (run e w) of Inl ex \<Rightarrow> 1 | Inr u \<Rightarrow> 0, durable (snd (run e w)))"
      using nf(4) by (simp add: main_runs)
    have "query_log (update_config (clock w) (clock w) region_id
        (insert_query_log ?row (txn w))) = query_log db @ [?row]"
      using a by (simp add: update_config_def insert_query_log_def)
    then have "update_config (clock w) (clock w) region_id
        (insert_query_log ?row (txn w)) \<noteq> db"
      by (metis append_self_conv not_Cons_self2)
    with m r show "fst (main e c k now db) = 1 \<and> snd (main e c k now db) \<noteq> db"
      by simp
  qed
  from 1 2 3 show ?thesis by blast
qed

theorem empty_region_raises_after_both_commits_witness:
  "fst (main sample_env (Some ''postgresql://db'') (Some ''key'') 1000000 empty_region_db) = 1 \<and>
   snd (main sample_env (Some ''postgresql://db'') (Some ''key'') 1000000 empty_region_db)
     \<noteq> empty_region_db \<and>
   (\<exists>w'. run sample_env \<lparr>clock = 1000000, durable = empty_region_db,
                          txn = empty_region_db, out = []\<rparr> = (Inl ZeroDivisionError, w') \<and>
      durable w' = update_config 1000000 1000000 1
              (insert_query_log
                   \<lparr>ql_region_id = 1, ql_elements_queried = 0,
                    ql_successful_queries = 0, ql_failed_queries = 0,
                    ql_api_response_time_ms = 0\<rparr> empty_region_db))"
proof -
  let ?w = "\<lparr>clock = 1000000, durable = empty_region_db, txn = empty_region_db, out = []\<rparr>"
  have a1: "active_rows (txn ?w) = (1, Some ''Downtown'', 24, 1, None, 3) # []"
    by (simp add: empty_region_rows)
  have a2: "should_query_now (clock ?w) None 1"
    by (simp add: should_query_now_def)
  have a3: "segments_of 1 (txn ?w) = []"
    by (simp add: empty_region_segments)
  have a4: "\<forall>op. \<not> db_fails sample_env op"
    by (simp add: sample_env_def)
  have u: "\<not> unset (Some ''postgresql://db'')" "\<not> unset (Some ''key'')"
    by (simp_all add: unset_def)
  from empty_region_raises_after_both_commits [OF a1 a2 a3 a4,
      of "Some ''postgresql://db''" "Some ''key''" 1000000 empty_region_db] u
  show ?thesis by simp
qed


end
